theory Spec2Isabelle
  imports Complex_Main "HOL-Library.Word"
begin

section \<open>Data model of \<open>Modules/api_handler.py\<close>\<close>

text \<open>
  Decoded JSON, as \<open>json.loads\<close> returns it: \<open>None\<close>, \<open>bool\<close>, \<open>int\<close>, \<open>float\<close>
  (a finite float by its exact value), \<open>str\<close>, \<open>list\<close> and \<open>dict\<close>. A \<open>dict\<close> is
  an association list in insertion order; \<open>map_of\<close> is its lookup.
\<close>

datatype json =
    JNull
  | JBool bool
  | JInt int
  | JFloat rat
  | JStr string
  | JArr "json list"
  | JObj "(string \<times> json) list"

text \<open>
  A text frame read from the socket, by what \<open>json.loads\<close> does with it:
  \<open>NotJson\<close> is a text on which it raises \<open>JSONDecodeError\<close>, \<open>Json\<close> one that it
  decodes to the given value.
\<close>

datatype message = NotJson string | Json json

type_synonym uuid = "128 word"

text \<open>The three texts \<open>APIError\<close> is raised with; two of them format the request id.\<close>

datatype api_text =
    ConnectMessageNotParsed
  | ConsumedOrNeverQueued uuid
  | ConsumedBySomethingElse uuid

text \<open>
  Exceptions, one constructor per Python class. \<open>TransportError\<close> stands for whatever
  the websockets library raises; \<open>KeyError\<close>, \<open>TypeError\<close> and \<open>AttributeError\<close> are
  the built-in ones raised by subscripting and attribute access.
\<close>

datatype error =
    APIError api_text
  | NotConnectedError string
  | MismatchedVersionError string json
  | TimeoutError uuid
  | ValueError string
  | KeyError string
  | TypeError
  | AttributeError
  | TransportError string

text \<open>The calls of \<open>log.error\<close>, one constructor per call site.\<close>

datatype log_entry =
    NoVersionField
  | CouldNotParse string
  | TokenRequired
  | NoPermission
  | InternalError
  | NoRequestId json
  | InvalidRequestId json
  | UnexpectedResponse uuid

text \<open>
  The protocol object \<open>websockets.connect\<close> returns: its \<open>host\<close> and \<open>open\<close>
  attributes, and the frames handed to \<open>send\<close> (decoded, oldest first).
\<close>

record connection =
  host :: string
  is_open :: bool
  sent :: "json list"

text \<open>
  The listener task the handler holds: still running, or finished by the exception that
  left \<open>_message_handler\<close>.
\<close>

datatype task = Running | Crashed error

text \<open>
  The fields of \<open>BaseWebsocketAPIHandler\<close> (leading underscores dropped), the class
  attribute \<open>api_version\<close>, the log, and \<open>clock\<close>: the number of
  \<open>asyncio.sleep(0.01)\<close> calls completed so far.
\<close>

record handler =
  api_version :: string
  hostname :: string
  token :: "string option"
  tls :: bool
  connection :: "connection option"
  listener_task :: "task option"
  waiting_requests :: "uuid set"
  request_responses :: "uuid \<rightharpoonup> json"
  logged :: "log_entry list"
  clock :: nat

definition init :: "string \<Rightarrow> string \<Rightarrow> string option \<Rightarrow> bool \<Rightarrow> handler" where
  "init version hostname' token' tls' =
     \<lparr>api_version = version, hostname = hostname', token = token', tls = tls',
      connection = None, listener_task = None, waiting_requests = {},
      request_responses = Map.empty, logged = [], clock = 0\<rparr>"

definition WebsocketAPIHandler20 :: "string \<Rightarrow> string option \<Rightarrow> bool \<Rightarrow> handler" where
  "WebsocketAPIHandler20 = init ''v2.0''"

definition WebsocketAPIHandler21 :: "string \<Rightarrow> string option \<Rightarrow> bool \<Rightarrow> handler" where
  "WebsocketAPIHandler21 = init ''v2.1''"

definition connected_prop :: "handler \<Rightarrow> bool" where
  "connected_prop s = (case connection s of None \<Rightarrow> False | Some c \<Rightarrow> is_open c)"

section \<open>Python's operations on decoded JSON\<close>

text \<open>\<open>obj[key]\<close> for a \<open>str\<close> key: only a \<open>dict\<close> can be subscripted by one.\<close>

fun getitem :: "json \<Rightarrow> string \<Rightarrow> error + json" where
  "getitem (JObj d) k = (case map_of d k of None \<Rightarrow> Inl (KeyError k) | Some v \<Rightarrow> Inr v)"
| "getitem _ k = Inl TypeError"

text \<open>\<open>d[k] = v\<close> on a \<open>dict\<close>: an existing key keeps its place.\<close>

fun dict_set :: "string \<Rightarrow> json \<Rightarrow> (string \<times> json) list \<Rightarrow> (string \<times> json) list" where
  "dict_set k v [] = [(k, v)]"
| "dict_set k v ((k', v') # d) = (if k' = k then (k, v) # d else (k', v') # dict_set k v d)"

text \<open>\<open>d.update(m)\<close>.\<close>

fun dict_update :: "(string \<times> json) list \<Rightarrow> (string \<times> json) list \<Rightarrow> (string \<times> json) list" where
  "dict_update d [] = d"
| "dict_update d ((k, v) # m) = dict_update (dict_set k v d) m"

text \<open>\<open>x == n\<close> for an \<open>int\<close> literal \<open>n\<close> other than 0 and 1.\<close>

fun eq_int :: "json \<Rightarrow> int \<Rightarrow> bool" where
  "eq_int (JInt i) n = (i = n)"
| "eq_int (JFloat r) n = (r = of_int n)"
| "eq_int _ n = False"

text \<open>\<open>obj[key] == n\<close> where the key is known to be present.\<close>

definition item_eq :: "json \<Rightarrow> string \<Rightarrow> int \<Rightarrow> bool" where
  "item_eq obj k n = (case getitem obj k of Inl e \<Rightarrow> False | Inr v \<Rightarrow> eq_int v n)"

section \<open>Connection Manager\<close>

definition make_uri :: "handler \<Rightarrow> string" where
  "make_uri s =
     (let uri = (if tls s then ''wss://'' @ hostname s else ''ws://'' @ hostname s)
      in case token s of
           None \<Rightarrow> uri
         | Some t \<Rightarrow> if t \<noteq> [] then uri @ ''/?bearer='' @ t else uri)"

text \<open>
  The \<open>try\<close> block of \<open>connect\<close> on the decoded hello: \<open>Inl\<close> is the exception that
  leaves the block and is not caught, \<open>Inr\<close> the entries logged.
\<close>

definition check_version :: "string \<Rightarrow> json \<Rightarrow> error + log_entry list" where
  "check_version version connect_message =
     (case getitem connect_message ''meta'' of
        Inl (KeyError k) \<Rightarrow> Inr [NoVersionField]
      | Inl e \<Rightarrow> Inl e
      | Inr meta \<Rightarrow>
          (case getitem meta ''API-Version'' of
             Inl (KeyError k) \<Rightarrow> Inr [NoVersionField]
           | Inl e \<Rightarrow> Inl e
           | Inr v \<Rightarrow>
               if v \<noteq> JStr version then Inl (MismatchedVersionError version v)
               else Inr []))"

text \<open>
  \<open>connect\<close>. \<open>ws_connect\<close> is \<open>websockets.connect\<close> (what it returns or raises for
  a URI) and \<open>hello\<close> the frame that the first \<open>recv\<close> returns (a \<open>recv\<close> that
  raises is not modelled). The first
  \<open>case\<close> is \<open>if self.connected\<close>, which gives the open connection its name.
\<close>

definition connect ::
  "(string \<Rightarrow> error + connection) \<Rightarrow> message \<Rightarrow> handler \<Rightarrow> (error + unit) \<times> handler" where
  "connect ws_connect hello s =
     (case (if connected_prop s then connection s else None) of
        Some c \<Rightarrow> (Inl (NotConnectedError (''Already connected to a server: '' @ host c)), s)
      | None \<Rightarrow>
          (case ws_connect (make_uri s) of
             Inl e \<Rightarrow> (Inl e, s)
           | Inr c \<Rightarrow>
               (let s1 = s\<lparr>connection := Some c\<rparr> in
                case hello of
                  NotJson text \<Rightarrow> (Inl (APIError ConnectMessageNotParsed), s1)
                | Json connect_message \<Rightarrow>
                    (case check_version (api_version s1) connect_message of
                       Inl e \<Rightarrow> (Inl e, s1)
                     | Inr entries \<Rightarrow>
                         (Inr (), s1\<lparr>logged := logged s1 @ entries,
                                     listener_task := Some Running\<rparr>)))))"

text \<open>
  \<open>disconnect\<close>. \<open>self._listener_task.cancel()\<close> on \<open>None\<close> raises
  \<open>AttributeError\<close>.
\<close>

definition disconnect :: "handler \<Rightarrow> (error + unit) \<times> handler" where
  "disconnect s =
     (if \<not> connected_prop s then (Inl (NotConnectedError ''Not connected to API''), s)
      else case listener_task s of
             None \<Rightarrow> (Inl AttributeError, s)
           | Some t \<Rightarrow> (Inr (), s\<lparr>listener_task := None, connection := None\<rparr>))"

text \<open>
  \<open>reconnect\<close>. Each argument is \<open>None\<close> when the caller leaves it out; \<open>if x:\<close>
  is Python's truth test (\<open>None\<close>, the empty string and \<open>False\<close> are false).
\<close>

definition reconnect ::
  "(string \<Rightarrow> error + connection) \<Rightarrow> message \<Rightarrow>
   string option \<Rightarrow> string option \<Rightarrow> bool option \<Rightarrow> handler \<Rightarrow> (error + unit) \<times> handler" where
  "reconnect ws_connect hello hostname' token' tls' s =
     (case (if connected_prop s then disconnect s else (Inr (), s)) of
        (Inl e, s1) \<Rightarrow> (Inl e, s1)
      | (Inr u, s1) \<Rightarrow>
          (let s2 = (case hostname' of
                       None \<Rightarrow> s1
                     | Some h \<Rightarrow> if h \<noteq> [] then s1\<lparr>hostname := h\<rparr> else s1);
               s3 = (case token' of
                       None \<Rightarrow> s2
                     | Some t \<Rightarrow> if t \<noteq> [] then s2\<lparr>token := Some t\<rparr> else s2);
               s4 = (case tls' of
                       None \<Rightarrow> s3
                     | Some b \<Rightarrow> if b then s3\<lparr>tls := b\<rparr> else s3)
           in connect ws_connect hello s4))"

text \<open>
  The invariant of the connection state: the listener task runs exactly when the
  handler is connected.
\<close>

definition loop_runs_iff_connected :: "handler \<Rightarrow> bool" where
  "loop_runs_iff_connected s = ((listener_task s = Some Running) = connected_prop s)"

section \<open>Dispatch Loop\<close>

text \<open>\<open>data.keys()\<close>: an attribute of \<open>dict\<close> only.\<close>

fun keys :: "json \<Rightarrow> error + string list" where
  "keys (JObj d) = Inr (map fst d)"
| "keys _ = Inl AttributeError"

text \<open>
  \<open>UUID(x)\<close> on a decoded value. On a \<open>str\<close> the library parses it (\<open>UUID\<close>
  below, \<open>None\<close> where it raises \<open>ValueError\<close>); on \<open>None\<close> it raises
  \<open>TypeError\<close>; on anything else \<open>hex.replace\<close> raises \<open>AttributeError\<close>.
  \<open>Inr None\<close> is the \<open>ValueError\<close>, which the caller catches.
\<close>

fun make_uuid :: "(string \<Rightarrow> uuid option) \<Rightarrow> json \<Rightarrow> error + uuid option" where
  "make_uuid UUID (JStr x) = Inr (UUID x)"
| "make_uuid UUID JNull = Inl TypeError"
| "make_uuid UUID _ = Inl AttributeError"

text \<open>
  One pass through the body of \<open>while True\<close> in \<open>_message_handler\<close>, for the frame
  that \<open>recv\<close> returned: \<open>Inr\<close> is the state at the next iteration, \<open>Inl\<close> an
  exception that no \<open>except\<close> clause of the body catches.
\<close>

definition handle_message ::
  "(string \<Rightarrow> uuid option) \<Rightarrow> message \<Rightarrow> handler \<Rightarrow> error + handler" where
  "handle_message UUID msg s =
     (case msg of
        NotJson text \<Rightarrow> Inr (s\<lparr>logged := logged s @ [CouldNotParse text]\<rparr>)
      | Json data \<Rightarrow>
          (case keys data of
             Inl e \<Rightarrow> Inl e
           | Inr ks \<Rightarrow>
               if ''status'' \<in> set ks \<and> item_eq data ''status'' 401
               then Inr (s\<lparr>logged := logged s @ [TokenRequired]\<rparr>)
               else if ''status'' \<in> set ks \<and> item_eq data ''status'' 403
               then Inr (s\<lparr>logged := logged s @ [NoPermission]\<rparr>)
               else if ''status'' \<in> set ks \<and> item_eq data ''status'' 500
               then Inr (s\<lparr>logged := logged s @ [InternalError]\<rparr>)
               else
                 (case getitem data ''meta'' of
                    Inl (KeyError k) \<Rightarrow> Inr (s\<lparr>logged := logged s @ [NoRequestId data]\<rparr>)
                  | Inl e \<Rightarrow> Inl e
                  | Inr meta \<Rightarrow>
                      (case getitem meta ''request_id'' of
                         Inl (KeyError k) \<Rightarrow> Inr (s\<lparr>logged := logged s @ [NoRequestId data]\<rparr>)
                       | Inl e \<Rightarrow> Inl e
                       | Inr x \<Rightarrow>
                           (case make_uuid UUID x of
                              Inl e \<Rightarrow> Inl e
                            | Inr None \<Rightarrow> Inr (s\<lparr>logged := logged s @ [InvalidRequestId x]\<rparr>)
                            | Inr (Some request_id) \<Rightarrow>
                                if request_id \<notin> waiting_requests s
                                then Inr (s\<lparr>logged := logged s @
                                            [UnexpectedResponse request_id]\<rparr>)
                                else Inr (s\<lparr>request_responses :=
                                              (request_responses s)(request_id \<mapsto> data),
                                            waiting_requests :=
                                              waiting_requests s - {request_id}\<rparr>))))))"

text \<open>
  \<open>_message_handler\<close> over the frames that arrive, oldest first. It runs while the
  listener task does; an exception that leaves the body ends the task, and the frames
  after it are not read.
\<close>

fun message_handler ::
  "(string \<Rightarrow> uuid option) \<Rightarrow> message list \<Rightarrow> handler \<Rightarrow> handler" where
  "message_handler UUID [] s = s"
| "message_handler UUID (msg # msgs) s =
     (if listener_task s = Some Running
      then (case handle_message UUID msg s of
              Inl e \<Rightarrow> s\<lparr>listener_task := Some (Crashed e)\<rparr>
            | Inr s' \<Rightarrow> message_handler UUID msgs s')
      else s)"

section \<open>Call Engine\<close>

text \<open>
  \<open>asyncio.sleep(0.01)\<close>: the caller is suspended for one tick, during which the
  listener task handles the frames \<open>frames t\<close> that arrive in tick \<open>t\<close>.
\<close>

definition sleep ::
  "(string \<Rightarrow> uuid option) \<Rightarrow> (nat \<Rightarrow> message list) \<Rightarrow> handler \<Rightarrow> handler" where
  "sleep UUID frames s = (message_handler UUID (frames (clock s)) s)\<lparr>clock := Suc (clock s)\<rparr>"

text \<open>
  The \<open>for i in range(max_wait)\<close> loop of \<open>_retrieve_response\<close>, with the number of
  iterations left: \<open>True\<close> when it ends by \<open>break\<close>, \<open>False\<close> when the range is
  exhausted (the \<open>else\<close> clause of the loop).
\<close>

fun wait_loop ::
  "(string \<Rightarrow> uuid option) \<Rightarrow> (nat \<Rightarrow> message list) \<Rightarrow> uuid \<Rightarrow> nat \<Rightarrow> handler
   \<Rightarrow> bool \<times> handler" where
  "wait_loop UUID frames request_id 0 s = (False, s)"
| "wait_loop UUID frames request_id (Suc n) s =
     (if request_id \<in> waiting_requests s
      then wait_loop UUID frames request_id n (sleep UUID frames s)
      else (True, s))"

text \<open>\<open>_retrieve_response\<close>; \<open>range(max_wait)\<close> has \<open>nat max_wait\<close> elements.\<close>

definition retrieve_response ::
  "(string \<Rightarrow> uuid option) \<Rightarrow> (nat \<Rightarrow> message list) \<Rightarrow> uuid \<Rightarrow> int \<Rightarrow> handler
   \<Rightarrow> (error + json) \<times> handler" where
  "retrieve_response UUID frames request_id max_wait s =
     (if request_id \<notin> waiting_requests s \<and> request_id \<notin> dom (request_responses s)
      then (Inl (APIError (ConsumedOrNeverQueued request_id)), s)
      else
        (case wait_loop UUID frames request_id (nat max_wait) s of
           (False, s1) \<Rightarrow> (Inl (TimeoutError request_id), s1)
         | (True, s1) \<Rightarrow>
             (case request_responses s1 request_id of
                None \<Rightarrow> (Inl (APIError (ConsumedBySomethingElse request_id)), s1)
              | Some response \<Rightarrow>
                  (Inr response,
                   s1\<lparr>request_responses := (request_responses s1)(request_id := None)\<rparr>))))"

text \<open>
  The loop that mints the request id in \<open>_request\<close>, over the two collections it
  consults: \<open>uuid4 i\<close> is what the \<open>i\<close>-th call of \<open>uuid4()\<close> returns. The loop need not end, so this is a partial
  function: \<open>None\<close> when it does not.
\<close>

partial_function (option) mint ::
  "(nat \<Rightarrow> uuid) \<Rightarrow> uuid set \<Rightarrow> (uuid \<rightharpoonup> json) \<Rightarrow> nat \<Rightarrow> uuid option" where
  "mint uuid4 waiting responses i =
     (if uuid4 i \<in> waiting \<or> uuid4 i \<in> dom responses
      then mint uuid4 waiting responses (Suc i)
      else Some (uuid4 i))"

text \<open>
  The stamping of the id into \<open>data["meta"]["request_id"]\<close>: assigning to an item of
  something that is not a \<open>dict\<close> raises \<open>TypeError\<close>.
\<close>

definition stamp :: "string \<Rightarrow> (string \<times> json) list \<Rightarrow> error + (string \<times> json) list" where
  "stamp id_text data =
     (case map_of data ''meta'' of
        None \<Rightarrow> Inr (dict_set ''meta'' (JObj [(''request_id'', JStr id_text)]) data)
      | Some (JObj meta) \<Rightarrow>
          Inr (dict_set ''meta'' (JObj (dict_set ''request_id'' (JStr id_text) meta)) data)
      | Some other \<Rightarrow> Inl TypeError)"

text \<open>
  \<open>_send_raw\<close> of a \<open>dict\<close>: the frame goes out on the open connection. The write
  is one step: the listener handles frames while a caller sleeps, not while it sends.
\<close>

definition send_raw :: "json \<Rightarrow> handler \<Rightarrow> (error + unit) \<times> handler" where
  "send_raw data s =
     (case (if connected_prop s then connection s else None) of
        None \<Rightarrow> (Inl (NotConnectedError ''Not connected to API''), s)
      | Some c \<Rightarrow> (Inr (), s\<lparr>connection := Some (c\<lparr>sent := sent c @ [data]\<rparr>)\<rparr>))"

text \<open>
  \<open>_request\<close>. \<open>str_uuid\<close> is \<open>str\<close> on a \<open>UUID\<close>. The result is \<open>None\<close> when the
  minting loop does not end.
\<close>

definition request ::
  "(string \<Rightarrow> uuid option) \<Rightarrow> (uuid \<Rightarrow> string) \<Rightarrow> (nat \<Rightarrow> uuid) \<Rightarrow> (nat \<Rightarrow> message list)
   \<Rightarrow> (string \<times> json) list \<Rightarrow> handler \<Rightarrow> ((error + json) \<times> handler) option" where
  "request UUID str_uuid uuid4 frames data s =
     (case mint uuid4 (waiting_requests s) (request_responses s) 0 of
        None \<Rightarrow> None
      | Some request_id \<Rightarrow>
          Some (case stamp (str_uuid request_id) data of
                  Inl e \<Rightarrow> (Inl e, s)
                | Inr data' \<Rightarrow>
                    (case send_raw (JObj data') s of
                       (Inl e, s1) \<Rightarrow> (Inl e, s1)
                     | (Inr u, s1) \<Rightarrow>
                         retrieve_response UUID frames request_id 600
                           (s1\<lparr>waiting_requests := insert request_id (waiting_requests s1)\<rparr>))))"

text \<open>
  \<open>call\<close>. \<open>params\<close> and \<open>meta\<close> are \<open>None\<close> when left out;
  \<open>params["meta"].update(meta)\<close> on something that is not a \<open>dict\<close> raises
  \<open>AttributeError\<close>; the pair \<open>endpoint, action\<close> is sent as a JSON array.
\<close>

definition merge_meta ::
  "(string \<times> json) list \<Rightarrow> (string \<times> json) list \<Rightarrow> error + (string \<times> json) list" where
  "merge_meta params meta =
     (case map_of params ''meta'' of
        None \<Rightarrow> Inr (dict_set ''meta'' (JObj meta) params)
      | Some (JObj m) \<Rightarrow> Inr (dict_set ''meta'' (JObj (dict_update m meta)) params)
      | Some other \<Rightarrow> Inl AttributeError)"

definition call ::
  "(string \<Rightarrow> uuid option) \<Rightarrow> (uuid \<Rightarrow> string) \<Rightarrow> (nat \<Rightarrow> uuid) \<Rightarrow> (nat \<Rightarrow> message list)
   \<Rightarrow> string \<Rightarrow> string \<Rightarrow> (string \<times> json) list option \<Rightarrow> (string \<times> json) list option
   \<Rightarrow> handler \<Rightarrow> ((error + json) \<times> handler) option" where
  "call UUID str_uuid uuid4 frames endpoint action params meta s =
     (let params1 = (case params of None \<Rightarrow> [] | Some p \<Rightarrow> p);
          meta1 = (case meta of None \<Rightarrow> [] | Some m \<Rightarrow> m)
      in case merge_meta params1 meta1 of
           Inl e \<Rightarrow> Some (Inl e, s)
         | Inr params2 \<Rightarrow>
             request UUID str_uuid uuid4 frames
               (dict_set ''action'' (JArr [JStr endpoint, JStr action]) params2) s)"

section \<open>Versioned Handlers\<close>

text \<open>
  The business object: its \<open>case_id\<close> (\<open>None\<close> while unset) and its \<open>json(full)\<close>
  method, both as already serialisable values.
\<close>

record rescue =
  case_id :: "json option"
  to_json :: "bool \<Rightarrow> json"

text \<open>
  \<open>WebsocketAPIHandler20.update_rescue\<close>, which \<open>WebsocketAPIHandler21\<close> inherits;
  the handler's class shows in \<open>api_version\<close> only.
\<close>

definition update_rescue ::
  "(string \<Rightarrow> uuid option) \<Rightarrow> (uuid \<Rightarrow> string) \<Rightarrow> (nat \<Rightarrow> uuid) \<Rightarrow> (nat \<Rightarrow> message list)
   \<Rightarrow> rescue \<Rightarrow> bool \<Rightarrow> handler \<Rightarrow> ((error + json) \<times> handler) option" where
  "update_rescue UUID str_uuid uuid4 frames rescue full s =
     (case case_id rescue of
        None \<Rightarrow> Some (Inl (ValueError ''Cannot send rescue without ID to the API''), s)
      | Some i \<Rightarrow>
          call UUID str_uuid uuid4 frames ''rescues'' ''update''
            (Some [(''id'', i), (''data'', to_json rescue full)]) None s)"

section \<open>Example values\<close>

text \<open>
  A library \<open>UUID\<close> and \<open>str\<close> that know one identifier, a reply that carries it, an
  open socket, a connected \<open>v2.0\<close> handler whose listener runs, and the same handler
  waiting for that identifier.
\<close>

definition example_id_text :: string where
  "example_id_text = ''00000000-0000-0000-0000-000000000007''"

definition example_UUID :: "string \<Rightarrow> uuid option" where
  "example_UUID x = (if x = example_id_text then Some 7 else None)"

definition example_str :: "uuid \<Rightarrow> string" where
  "example_str u = (if u = 7 then example_id_text else ''ffffffff-ffff-ffff-ffff-ffffffffffff'')"

definition example_reply :: json where
  "example_reply =
     JObj [(''meta'', JObj [(''request_id'', JStr example_id_text)]), (''data'', JObj [])]"

definition example_socket :: connection where
  "example_socket = \<lparr>host = ''api.example'', is_open = True, sent = []\<rparr>"

definition example_idle :: handler where
  "example_idle =
     (WebsocketAPIHandler20 ''api.example'' None True)
       \<lparr>connection := Some example_socket, listener_task := Some Running\<rparr>"

definition example_handler :: handler where
  "example_handler = example_idle\<lparr>waiting_requests := {7}\<rparr>"

definition example_hello :: message where
  "example_hello = Json (JObj [(''meta'', JObj [(''API-Version'', JStr ''v2.0'')])])"

text \<open>A server that accepts plain connections to \<open>api.example\<close> only.\<close>

definition plain_only :: "string \<Rightarrow> error + connection" where
  "plain_only uri =
     (if uri = ''ws://api.example'' then Inr example_socket else Inl (TransportError uri))"

text \<open>A server that accepts secure connections without a bearer token only.\<close>

definition anonymous_only :: "string \<Rightarrow> error + connection" where
  "anonymous_only uri =
     (if uri = ''wss://api.example'' then Inr example_socket else Inl (TransportError uri))"

section \<open>The Dispatch Loop moves an identifier from pending to filed, and nothing else\<close>

lemma handle_message_cases:
  assumes "handle_message UUID msg s = Inr s'"
  shows "(\<exists>es. s' = s\<lparr>logged := logged s @ es\<rparr>)
    \<or> (\<exists>data meta x rid. msg = Json data \<and> getitem data ''meta'' = Inr meta
          \<and> getitem meta ''request_id'' = Inr (JStr x) \<and> UUID x = Some rid
          \<and> rid \<in> waiting_requests s
          \<and> s' = s\<lparr>request_responses := (request_responses s)(rid \<mapsto> data),
                    waiting_requests := waiting_requests s - {rid}\<rparr>)"
proof (cases msg)
  case (NotJson raw)
  with assms show ?thesis by (auto simp: handle_message_def)
next
  case (Json data)
  show ?thesis
  proof (cases "getitem data ''meta''")
    case (Inl e)
    with assms Json show ?thesis
      by (auto simp: handle_message_def split: sum.splits if_splits error.splits)
  next
    case meta: (Inr meta)
    show ?thesis
    proof (cases "getitem meta ''request_id''")
      case (Inl e)
      with assms Json meta show ?thesis
        by (auto simp: handle_message_def split: sum.splits if_splits error.splits)
    next
      case x: (Inr x)
      show ?thesis
      proof (cases x)
        case (JStr t)
        with assms Json meta x show ?thesis
          by (auto simp: handle_message_def split: sum.splits if_splits option.splits)
      qed (use assms Json meta x in \<open>auto simp: handle_message_def split: sum.splits if_splits\<close>)
    qed
  qed
qed



lemma handle_message_clock:
  assumes "handle_message UUID msg s = Inr s'"
  shows "clock s' = clock s"
  using handle_message_cases [OF assms] by auto

lemma handle_message_listener:
  assumes "handle_message UUID msg s = Inr s'"
  shows "listener_task s' = listener_task s"
  using handle_message_cases [OF assms] by auto

lemma handle_message_connection:
  assumes "handle_message UUID msg s = Inr s'"
  shows "connection s' = connection s"
  using handle_message_cases [OF assms] by auto



lemma message_handler_clock: "clock (message_handler UUID msgs s) = clock s"
  by (induction msgs arbitrary: s) (auto split: sum.splits dest: handle_message_clock)

lemma message_handler_connection: "connection (message_handler UUID msgs s) = connection s"
  by (induction msgs arbitrary: s) (auto split: sum.splits dest: handle_message_connection)





section \<open>Sleeping and polling\<close>

lemma sleep_clock: "clock (sleep UUID frames s) = Suc (clock s)"
  by (simp add: sleep_def)

lemma run_clock: "clock ((sleep UUID frames ^^ t) s) = clock s + t"
  by (induction t) (simp_all add: sleep_clock)




lemma wait_loop_break:
  assumes "\<forall>t<k. rid \<in> waiting_requests ((sleep UUID frames ^^ t) s)"
    and "rid \<notin> waiting_requests ((sleep UUID frames ^^ k) s)" and "k < n"
  shows "wait_loop UUID frames rid n s = (True, (sleep UUID frames ^^ k) s)"
  using assms
proof (induction k arbitrary: s n)
  case 0
  then obtain n' where "n = Suc n'" by (cases n) auto
  with 0 show ?case by simp
next
  case (Suc k)
  then obtain n' where n: "n = Suc n'" "k < n'" by (cases n) auto
  from Suc.prems(1) have here: "rid \<in> waiting_requests s" by force
  have later: "\<forall>t<k. rid \<in> waiting_requests ((sleep UUID frames ^^ t) (sleep UUID frames s))"
  proof (intro allI impI)
    fix t assume "t < k"
    then have "rid \<in> waiting_requests ((sleep UUID frames ^^ Suc t) s)"
      using Suc.prems(1) by (meson Suc_less_eq)
    then show "rid \<in> waiting_requests ((sleep UUID frames ^^ t) (sleep UUID frames s))"
      by (simp add: funpow_swap1)
  qed
  have last: "rid \<notin> waiting_requests ((sleep UUID frames ^^ k) (sleep UUID frames s))"
    using Suc.prems(2) by (simp add: funpow_swap1)
  from Suc.IH [OF later last n(2)] here n show ?case
    by (simp add: funpow_swap1)
qed


lemma wait_loop_pending:
  assumes "\<forall>t<n. rid \<in> waiting_requests ((sleep UUID frames ^^ t) s)"
  shows "wait_loop UUID frames rid n s = (False, (sleep UUID frames ^^ n) s)"
  using assms
proof (induction n arbitrary: s)
  case 0
  then show ?case by simp
next
  case (Suc n)
  from Suc.prems have here: "rid \<in> waiting_requests s" by force
  have "\<forall>t<n. rid \<in> waiting_requests ((sleep UUID frames ^^ t) (sleep UUID frames s))"
  proof (intro allI impI)
    fix t assume "t < n"
    then have "rid \<in> waiting_requests ((sleep UUID frames ^^ Suc t) s)"
      using Suc.prems by (meson Suc_less_eq)
    then show "rid \<in> waiting_requests ((sleep UUID frames ^^ t) (sleep UUID frames s))"
      by (simp add: funpow_swap1)
  qed
  from Suc.IH [OF this] here show ?case by (simp add: funpow_swap1)
qed


lemma retrieve_response_filed:
  assumes "\<forall>t<k. rid \<in> waiting_requests ((sleep UUID frames ^^ t) s)"
    and "rid \<notin> waiting_requests ((sleep UUID frames ^^ k) s)" and "0 < k" and "int k < max_wait"
    and "request_responses ((sleep UUID frames ^^ k) s) rid = Some data"
  shows "retrieve_response UUID frames rid max_wait s =
      (Inr data, ((sleep UUID frames ^^ k) s)
         \<lparr>request_responses := (request_responses ((sleep UUID frames ^^ k) s))(rid := None)\<rparr>)"
proof -
  from assms(1,3) have here: "rid \<in> waiting_requests s" by force
  from assms(4) have "k < nat max_wait" by linarith
  from wait_loop_break [OF assms(1,2) this] here assms(5) show ?thesis
    by (simp add: retrieve_response_def)
qed

lemma retrieve_response_unknown:
  assumes "rid \<notin> waiting_requests s" and "rid \<notin> dom (request_responses s)"
  shows "retrieve_response UUID frames rid max_wait s
       = (Inl (APIError (ConsumedOrNeverQueued rid)), s)"
  using assms by (simp add: retrieve_response_def)



section \<open>Minting\<close>

lemma mint_fresh:
  assumes "mint uuid4 waiting responses i = Some rid"
  shows "rid \<notin> waiting \<and> rid \<notin> dom responses \<and> (\<exists>j\<ge>i. rid = uuid4 j)"
proof (rule mint.raw_induct [where P = "\<lambda>uuid4 waiting responses i rid.
    rid \<notin> waiting \<and> rid \<notin> dom responses \<and> (\<exists>j\<ge>i. rid = uuid4 j)", OF _ assms])
  fix f :: "(nat \<Rightarrow> uuid) \<Rightarrow> uuid set \<Rightarrow> (uuid \<rightharpoonup> json) \<Rightarrow> nat \<Rightarrow> uuid option"
    and g w m i r
  assume IH: "\<And>g w m i r. f g w m i = Some r \<Longrightarrow>
      r \<notin> w \<and> r \<notin> dom m \<and> (\<exists>j\<ge>i. r = g j)"
    and body: "(if g i \<in> w \<or> g i \<in> dom m then f g w m (Suc i) else Some (g i)) = Some r"
  show "r \<notin> w \<and> r \<notin> dom m \<and> (\<exists>j\<ge>i. r = g j)"
  proof (cases "g i \<in> w \<or> g i \<in> dom m")
    case True
    with body have "f g w m (Suc i) = Some r" by simp
    from IH [OF this] show ?thesis by (auto intro: Suc_leD)
  next
    case False
    with body have "r = g i" by simp
    with False show ?thesis by auto
  qed
qed

lemma mint_returns:
  assumes "i \<le> j" and "uuid4 j \<notin> waiting" and "uuid4 j \<notin> dom responses"
  shows "\<exists>rid. mint uuid4 waiting responses i = Some rid"
  using assms
proof (induction "j - i" arbitrary: i)
  case 0
  then have "i = j" by simp
  with 0 show ?case by (subst mint.simps) simp
next
  case (Suc n)
  show ?case
  proof (cases "uuid4 i \<in> waiting \<or> uuid4 i \<in> dom responses")
    case True
    from Suc have "n = j - Suc i" "Suc i \<le> j" by simp_all
    from Suc.hyps(1) [OF this Suc.prems(2,3)]
    obtain rid where "mint uuid4 waiting responses (Suc i) = Some rid" ..
    with True show ?thesis by (subst mint.simps) simp
  next
    case False
    then show ?thesis by (subst mint.simps) simp
  qed
qed

section \<open>Version check at connect time\<close>





section \<open>Claiming a reply\<close>



section \<open>Waiting in vain\<close>

text \<open>
  C5. With a wait budget of \<open>max_wait\<close> ticks (not negative), a request id that is
  pending and stays pending through every tick of the wait makes \<open>_retrieve_response\<close>
  raise \<open>TimeoutError\<close> after exactly \<open>max_wait\<close> sleeps of 10 ms, no fewer;
  \<open>_request\<close> passes the default budget of 600. An id that is neither pending nor filed
  makes it raise \<open>APIError\<close> at once: the state, and with it the clock, is unchanged.
\<close>

theorem retrieve_response_timeout:
  assumes "0 \<le> max_wait"
  shows "(request_id \<in> waiting_requests s
          \<and> (\<forall>t<nat max_wait. request_id \<in> waiting_requests ((sleep UUID frames ^^ t) s)) \<longrightarrow>
          (\<exists>s'. retrieve_response UUID frames request_id max_wait s
                  = (Inl (TimeoutError request_id), s')
               \<and> int (clock s') = int (clock s) + max_wait))
       \<and> (request_id \<notin> waiting_requests s \<and> request_id \<notin> dom (request_responses s) \<longrightarrow>
          retrieve_response UUID frames request_id max_wait s
            = (Inl (APIError (ConsumedOrNeverQueued request_id)), s))"
proof (intro conjI impI)
  assume h: "request_id \<in> waiting_requests s
    \<and> (\<forall>t<nat max_wait. request_id \<in> waiting_requests ((sleep UUID frames ^^ t) s))"
  then have "wait_loop UUID frames request_id (nat max_wait) s
      = (False, (sleep UUID frames ^^ nat max_wait) s)"
    by (intro wait_loop_pending) simp
  with h have "retrieve_response UUID frames request_id max_wait s
      = (Inl (TimeoutError request_id), (sleep UUID frames ^^ nat max_wait) s)"
    by (simp add: retrieve_response_def)
  moreover have "int (clock ((sleep UUID frames ^^ nat max_wait) s)) = int (clock s) + max_wait"
    using assms by (simp add: run_clock)
  ultimately show "\<exists>s'. retrieve_response UUID frames request_id max_wait s
      = (Inl (TimeoutError request_id), s') \<and> int (clock s') = int (clock s) + max_wait"
    by blast
next
  assume "request_id \<notin> waiting_requests s \<and> request_id \<notin> dom (request_responses s)"
  then show "retrieve_response UUID frames request_id max_wait s
      = (Inl (APIError (ConsumedOrNeverQueued request_id)), s)"
    by (simp add: retrieve_response_unknown)
qed

theorem retrieve_response_timeout_witness:
  "fst (retrieve_response example_UUID (\<lambda>t. []) 7 3 example_handler) = Inl (TimeoutError 7)
   \<and> clock (snd (retrieve_response example_UUID (\<lambda>t. []) 7 3 example_handler))
       = clock example_handler + 3
   \<and> retrieve_response example_UUID (\<lambda>t. []) 9 3 example_handler
       = (Inl (APIError (ConsumedOrNeverQueued 9)), example_handler)"
  using retrieve_response_timeout [of 3 7 example_handler example_UUID "\<lambda>t. []"]
    retrieve_response_timeout [of 3 9 example_handler example_UUID "\<lambda>t. []"]
  by (auto simp: example_handler_def example_idle_def WebsocketAPIHandler20_def init_def
      sleep_def
      eval_nat_numeral less_Suc_eq)

section \<open>After a timeout\<close>




section \<open>Request identifiers\<close>

lemma wait_loop_connection:
  "connection (snd (wait_loop UUID frames rid n s)) = connection s"
  by (induction n arbitrary: s) (simp_all add: sleep_def message_handler_connection)

lemma retrieve_response_connection:
  "connection (snd (retrieve_response UUID frames rid max_wait s)) = connection s"
proof -
  obtain b s1 where w: "wait_loop UUID frames rid (nat max_wait) s = (b, s1)"
    by (cases "wait_loop UUID frames rid (nat max_wait) s")
  with wait_loop_connection [of UUID frames rid "nat max_wait" s]
  have "connection s1 = connection s" by simp
  with w show ?thesis
    by (cases b) (simp_all add: retrieve_response_def split: option.splits)
qed

lemma request_returns_reply:
  fixes s :: handler and c :: connection
  defines "s1 \<equiv> \<lambda>rid data'. s\<lparr>connection := Some (c\<lparr>sent := sent c @ [JObj data']\<rparr>),
      waiting_requests := insert rid (waiting_requests s)\<rparr>"
  assumes "mint uuid4 (waiting_requests s) (request_responses s) 0 = Some rid"
    and "stamp (str_uuid rid) data = Inr data'"
    and "connection s = Some c" and "is_open c"
    and "\<forall>t<k. rid \<in> waiting_requests ((sleep UUID frames ^^ t) (s1 rid data'))"
    and "rid \<notin> waiting_requests ((sleep UUID frames ^^ k) (s1 rid data'))"
    and "0 < k" and "k < 600"
    and "request_responses ((sleep UUID frames ^^ k) (s1 rid data')) rid = Some reply"
  shows "request UUID str_uuid uuid4 frames data s =
      Some (Inr reply, ((sleep UUID frames ^^ k) (s1 rid data'))
        \<lparr>request_responses :=
           (request_responses ((sleep UUID frames ^^ k) (s1 rid data')))(rid := None)\<rparr>)"
proof -
  have send: "send_raw (JObj data') s
      = (Inr (), s\<lparr>connection := Some (c\<lparr>sent := sent c @ [JObj data']\<rparr>)\<rparr>)"
    using assms(4,5) by (simp add: send_raw_def connected_prop_def)
  have "int k < 600" using assms(9) by simp
  from retrieve_response_filed [OF assms(6,7,8) this assms(10)] send assms(2,3)
  show ?thesis by (simp add: request_def s1_def)
qed

text \<open>
  C9. The id that \<open>_request\<close> mints is in neither the pending set nor the response
  table of the state in which it is minted and stamped (no other task runs in between);
  the minting loop ends as soon as \<open>uuid4()\<close> returns such an id. Whenever \<open>_request\<close>
  returns or raises, it has minted such an id, and the frame it sent, if any, is the
  data stamped with it.
\<close>

theorem minted_request_id_is_unused:
  "(mint uuid4 (waiting_requests s) (request_responses s) 0 = Some request_id \<longrightarrow>
      request_id \<notin> waiting_requests s \<and> request_id \<notin> dom (request_responses s))
   \<and> ((\<exists>j. uuid4 j \<notin> waiting_requests s \<and> uuid4 j \<notin> dom (request_responses s)) \<longrightarrow>
      (\<exists>request_id. mint uuid4 (waiting_requests s) (request_responses s) 0 = Some request_id))
   \<and> (request UUID str_uuid uuid4 frames data s = Some out \<longrightarrow>
      (\<exists>request_id. mint uuid4 (waiting_requests s) (request_responses s) 0 = Some request_id
         \<and> request_id \<notin> waiting_requests s \<and> request_id \<notin> dom (request_responses s)
         \<and> (\<forall>c data'. connection s = Some c \<and> is_open c
               \<and> stamp (str_uuid request_id) data = Inr data' \<longrightarrow>
               connection (snd out) = Some (c\<lparr>sent := sent c @ [JObj data']\<rparr>))))"
proof -
  have a: "request_id \<notin> waiting_requests s \<and> request_id \<notin> dom (request_responses s)"
    if "mint uuid4 (waiting_requests s) (request_responses s) 0 = Some request_id"
    using mint_fresh [OF that] by blast
  have b: "\<exists>request_id. mint uuid4 (waiting_requests s) (request_responses s) 0 = Some request_id"
    if "\<exists>j. uuid4 j \<notin> waiting_requests s \<and> uuid4 j \<notin> dom (request_responses s)"
  proof -
    from that obtain j where
      j: "uuid4 j \<notin> waiting_requests s" "uuid4 j \<notin> dom (request_responses s)" by blast
    with mint_returns [of 0 j uuid4 "waiting_requests s" "request_responses s"] show ?thesis by simp
  qed
  have c: "\<exists>request_id. mint uuid4 (waiting_requests s) (request_responses s) 0 = Some request_id
      \<and> request_id \<notin> waiting_requests s \<and> request_id \<notin> dom (request_responses s)
      \<and> (\<forall>c data'. connection s = Some c \<and> is_open c
            \<and> stamp (str_uuid request_id) data = Inr data' \<longrightarrow>
            connection (snd out) = Some (c\<lparr>sent := sent c @ [JObj data']\<rparr>))"
    if r: "request UUID str_uuid uuid4 frames data s = Some out"
  proof -
    from r obtain rid where m: "mint uuid4 (waiting_requests s) (request_responses s) 0 = Some rid"
      by (auto simp: request_def split: option.splits)
    from mint_fresh [OF m]
    have fresh: "rid \<notin> waiting_requests s" "rid \<notin> dom (request_responses s)" by blast+
    have "connection (snd out) = Some (c\<lparr>sent := sent c @ [JObj data']\<rparr>)"
      if h: "connection s = Some c \<and> is_open c \<and> stamp (str_uuid rid) data = Inr data'"
      for c data'
    proof -
      from h have "send_raw (JObj data') s
          = (Inr (), s\<lparr>connection := Some (c\<lparr>sent := sent c @ [JObj data']\<rparr>)\<rparr>)"
        by (simp add: send_raw_def connected_prop_def)
      with r m h have "out = retrieve_response UUID frames rid 600
          (s\<lparr>connection := Some (c\<lparr>sent := sent c @ [JObj data']\<rparr>),
             waiting_requests := insert rid (waiting_requests s)\<rparr>)"
        by (simp add: request_def)
      then show ?thesis by (simp add: retrieve_response_connection)
    qed
    with m fresh show ?thesis by blast
  qed
  from a b c show ?thesis by blast
qed

text \<open>
  The example handler waits for 7 and holds a reply for 8: \<open>uuid4()\<close> returning 7, 8, 9
  makes the loop mint 9.
\<close>

theorem minted_request_id_is_unused_witness:
  "mint (\<lambda>i. if i = 0 then 8 else if i = 1 then 9 else 7) {8} [9 \<mapsto> JNull] 0 = Some 7
   \<and> (7::uuid) \<notin> {8} \<and> (7::uuid) \<notin> dom [9 \<mapsto> JNull]
   \<and> fst (the (request example_UUID example_str (\<lambda>i. if i = 0 then 8 else if i = 1 then 9 else 7)
          (\<lambda>t. if t = 0 then [Json example_reply] else []) []
          (example_idle\<lparr>waiting_requests := {8}, request_responses := [9 \<mapsto> JNull]\<rparr>)))
       = Inr example_reply
   \<and> connection (snd (the (request example_UUID example_str
          (\<lambda>i. if i = 0 then 8 else if i = 1 then 9 else 7)
          (\<lambda>t. if t = 0 then [Json example_reply] else []) []
          (example_idle\<lparr>waiting_requests := {8}, request_responses := [9 \<mapsto> JNull]\<rparr>))))
       = Some (example_socket
           \<lparr>sent := [JObj [(''meta'', JObj [(''request_id'', JStr example_id_text)])]]\<rparr>)"
proof -
  let ?g = "\<lambda>i::nat. if i = 0 then (8::uuid) else if i = 1 then 9 else 7"
  let ?f = "\<lambda>t::nat. if t = 0 then [Json example_reply] else []"
  let ?s = "example_idle\<lparr>waiting_requests := {8}, request_responses := [9 \<mapsto> JNull]\<rparr>"
  let ?s1 = "?s\<lparr>connection := Some (example_socket
      \<lparr>sent := sent example_socket @ [JObj [(''meta'', JObj [(''request_id'', JStr example_id_text)])]]\<rparr>),
      waiting_requests := insert 7 (waiting_requests ?s)\<rparr>"
  have w: "waiting_requests ?s = {8}" "request_responses ?s = [9 \<mapsto> JNull]"
    "connection ?s = Some example_socket" "is_open example_socket"
    by (simp_all add: example_idle_def example_socket_def)
  have m: "mint ?g {8} [9 \<mapsto> JNull] 0 = Some 7"
    by (simp add: mint.simps [of ?g _ _ 0] mint.simps [of ?g _ _ "Suc 0"]
        mint.simps [of ?g _ _ "Suc (Suc 0)"])
  have st: "stamp (example_str 7) [] = Inr [(''meta'', JObj [(''request_id'', JStr example_id_text)])]"
    by (simp add: stamp_def example_str_def)
  have run: "\<forall>t<1. 7 \<in> waiting_requests ((sleep example_UUID ?f ^^ t) ?s1)"
    "7 \<notin> waiting_requests ((sleep example_UUID ?f ^^ 1) ?s1)"
    "request_responses ((sleep example_UUID ?f ^^ 1) ?s1) 7 = Some example_reply"
    by (simp_all add: example_UUID_def example_reply_def example_idle_def example_id_text_def
        WebsocketAPIHandler20_def init_def sleep_def handle_message_def item_eq_def)
  have r: "request example_UUID example_str ?g ?f [] ?s
      = Some (Inr example_reply, ((sleep example_UUID ?f ^^ 1) ?s1)
          \<lparr>request_responses := (request_responses ((sleep example_UUID ?f ^^ 1) ?s1))(7 := None)\<rparr>)"
  proof (rule request_returns_reply [where c = example_socket and k = 1 and rid = 7
        and str_uuid = example_str and s = ?s and UUID = example_UUID
        and frames = ?f and data = "[]" and reply = example_reply
        and data' = "[(''meta'', JObj [(''request_id'', JStr example_id_text)])]",
        OF _ st w(3) w(4) run(1) run(2) _ _ run(3)])
    show "mint ?g (waiting_requests ?s) (request_responses ?s) 0 = Some 7"
      using m by simp
  qed simp_all
  from minted_request_id_is_unused [of ?g ?s 7 example_UUID example_str ?f "[]"
      "(Inr example_reply, ((sleep example_UUID ?f ^^ 1) ?s1)
          \<lparr>request_responses := (request_responses ((sleep example_UUID ?f ^^ 1) ?s1))(7 := None)\<rparr>)"]
    m r st w
  show ?thesis by (simp add: example_socket_def)
qed

section \<open>Pushing a rescue\<close>

lemma handle_message_version:
  "handle_message UUID msg (s\<lparr>api_version := v\<rparr>) =
     (case handle_message UUID msg s of
        Inl e \<Rightarrow> Inl e
      | Inr s' \<Rightarrow> Inr (s'\<lparr>api_version := v\<rparr>))"
  by (simp add: handle_message_def split: message.split sum.split error.split option.split)

lemma message_handler_version:
  "message_handler UUID msgs (s\<lparr>api_version := v\<rparr>)
     = (message_handler UUID msgs s)\<lparr>api_version := v\<rparr>"
proof (induction msgs arbitrary: s)
  case (Cons msg msgs)
  show ?case
    by (cases "handle_message UUID msg s") (simp_all add: handle_message_version Cons)
qed simp

lemma sleep_version:
  "sleep UUID frames (s\<lparr>api_version := v\<rparr>) = (sleep UUID frames s)\<lparr>api_version := v\<rparr>"
  by (simp add: sleep_def message_handler_version)

lemma wait_loop_version:
  "wait_loop UUID frames rid n (s\<lparr>api_version := v\<rparr>)
     = apsnd (\<lambda>s'. s'\<lparr>api_version := v\<rparr>) (wait_loop UUID frames rid n s)"
  by (induction n arbitrary: s) (simp_all add: sleep_version)

lemma retrieve_response_version:
  "retrieve_response UUID frames rid max_wait (s\<lparr>api_version := v\<rparr>)
     = apsnd (\<lambda>s'. s'\<lparr>api_version := v\<rparr>) (retrieve_response UUID frames rid max_wait s)"
  by (simp add: retrieve_response_def wait_loop_version
      split: prod.split bool.split option.split)

lemma request_version:
  "request UUID str_uuid uuid4 frames data (s\<lparr>api_version := v\<rparr>)
     = map_option (apsnd (\<lambda>s'. s'\<lparr>api_version := v\<rparr>))
         (request UUID str_uuid uuid4 frames data s)"
proof -
  have "retrieve_response UUID frames rid 600
        (s\<lparr>api_version := v, connection := Some c',
           waiting_requests := insert rid (waiting_requests s)\<rparr>)
      = apsnd (\<lambda>s'. s'\<lparr>api_version := v\<rparr>)
          (retrieve_response UUID frames rid 600
            (s\<lparr>connection := Some c', waiting_requests := insert rid (waiting_requests s)\<rparr>))"
    for rid c'
  proof -
    have "s\<lparr>api_version := v, connection := Some c',
          waiting_requests := insert rid (waiting_requests s)\<rparr>
        = (s\<lparr>connection := Some c', waiting_requests := insert rid (waiting_requests s)\<rparr>)
            \<lparr>api_version := v\<rparr>"
      by (cases s) simp
    then show ?thesis by (simp only: retrieve_response_version)
  qed
  then show ?thesis
    by (simp add: request_def send_raw_def connected_prop_def split: option.split sum.split)
qed

lemma call_version:
  "call UUID str_uuid uuid4 frames endpoint action params meta (s\<lparr>api_version := v\<rparr>)
     = map_option (apsnd (\<lambda>s'. s'\<lparr>api_version := v\<rparr>))
         (call UUID str_uuid uuid4 frames endpoint action params meta s)"
  by (simp add: call_def request_version split: sum.split)

lemma update_rescue_version:
  "update_rescue UUID str_uuid uuid4 frames rescue full (s\<lparr>api_version := v\<rparr>)
     = map_option (apsnd (\<lambda>s'. s'\<lparr>api_version := v\<rparr>))
         (update_rescue UUID str_uuid uuid4 frames rescue full s)"
  by (simp add: update_rescue_def call_version split: option.split)

lemma handler21_is_handler20:
  "WebsocketAPIHandler21 h t l = (WebsocketAPIHandler20 h t l)\<lparr>api_version := ''v2.1''\<rparr>"
  by (simp add: WebsocketAPIHandler21_def WebsocketAPIHandler20_def init_def)

lemma update_rescue_envelope:
  "merge_meta [(''id'', i), (''data'', j)] []
     = Inr [(''id'', i), (''data'', j), (''meta'', JObj [])]"
  "stamp x (dict_set ''action'' (JArr [JStr ''rescues'', JStr ''update''])
       [(''id'', i), (''data'', j), (''meta'', JObj [])])
     = Inr [(''id'', i), (''data'', j), (''meta'', JObj [(''request_id'', JStr x)]),
            (''action'', JArr [JStr ''rescues'', JStr ''update''])]"
  by (simp_all add: merge_meta_def stamp_def)

text \<open>
  C8. Without a \<open>case_id\<close>, \<open>update_rescue\<close> raises \<open>ValueError\<close> and the state,
  with the frames sent so far, is unchanged. With one, it is
  \<open>call("rescues", "update", {"id": case_id, "data": rescue.json(full)})\<close>: on a
  connected handler the frame sent is that \<open>dict\<close> with the minted id stamped into its
  \<open>meta\<close> and the action pair added, and when the listener files the reply within the
  600 ticks of the wait, that reply is what \<open>update_rescue\<close> returns. The class of the
  handler is not consulted: on a state that differs in \<open>api_version\<close> only, the result
  is the same and the final states differ in \<open>api_version\<close> only, and a \<open>v2.1\<close> handler
  is a \<open>v2.0\<close> handler but for that field.
\<close>

theorem update_rescue_contract:
  fixes s :: handler and c :: connection and rescue :: rescue and str_uuid :: "uuid \<Rightarrow> string"
  defines "envelope \<equiv> \<lambda>i rid full.
      JObj [(''id'', i), (''data'', to_json rescue full),
            (''meta'', JObj [(''request_id'', JStr (str_uuid rid))]),
            (''action'', JArr [JStr ''rescues'', JStr ''update''])]"
  defines "s1 \<equiv> \<lambda>i rid full. s\<lparr>connection := Some (c\<lparr>sent := sent c @ [envelope i rid full]\<rparr>),
      waiting_requests := insert rid (waiting_requests s)\<rparr>"
  shows "(case_id rescue = None \<longrightarrow>
          update_rescue UUID str_uuid uuid4 frames rescue full s
            = Some (Inl (ValueError ''Cannot send rescue without ID to the API''), s))
       \<and> (case_id rescue = Some i \<longrightarrow>
          update_rescue UUID str_uuid uuid4 frames rescue full s
            = call UUID str_uuid uuid4 frames ''rescues'' ''update''
                (Some [(''id'', i), (''data'', to_json rescue full)]) None s)
       \<and> (case_id rescue = Some i
            \<and> mint uuid4 (waiting_requests s) (request_responses s) 0 = Some rid
            \<and> connection s = Some c \<and> is_open c
            \<and> (\<forall>t<k. rid \<in> waiting_requests ((sleep UUID frames ^^ t) (s1 i rid full)))
            \<and> rid \<notin> waiting_requests ((sleep UUID frames ^^ k) (s1 i rid full))
            \<and> 0 < k \<and> k < 600
            \<and> request_responses ((sleep UUID frames ^^ k) (s1 i rid full)) rid = Some reply \<longrightarrow>
          update_rescue UUID str_uuid uuid4 frames rescue full s
            = Some (Inr reply, ((sleep UUID frames ^^ k) (s1 i rid full))
                \<lparr>request_responses :=
                   (request_responses ((sleep UUID frames ^^ k) (s1 i rid full)))(rid := None)\<rparr>))
       \<and> update_rescue UUID str_uuid uuid4 frames rescue full (s\<lparr>api_version := v\<rparr>)
            = map_option (apsnd (\<lambda>s'. s'\<lparr>api_version := v\<rparr>))
                (update_rescue UUID str_uuid uuid4 frames rescue full s)
       \<and> WebsocketAPIHandler21 h tok l = (WebsocketAPIHandler20 h tok l)\<lparr>api_version := ''v2.1''\<rparr>"
proof -
  have a: "update_rescue UUID str_uuid uuid4 frames rescue full s
      = Some (Inl (ValueError ''Cannot send rescue without ID to the API''), s)"
    if "case_id rescue = None"
    using that by (simp add: update_rescue_def)
  have b: "update_rescue UUID str_uuid uuid4 frames rescue full s
      = call UUID str_uuid uuid4 frames ''rescues'' ''update''
          (Some [(''id'', i), (''data'', to_json rescue full)]) None s"
    if "case_id rescue = Some i"
    using that by (simp add: update_rescue_def)
  have c: "update_rescue UUID str_uuid uuid4 frames rescue full s
      = Some (Inr reply, ((sleep UUID frames ^^ k) (s1 i rid full))
          \<lparr>request_responses :=
             (request_responses ((sleep UUID frames ^^ k) (s1 i rid full)))(rid := None)\<rparr>)"
    if h: "case_id rescue = Some i
      \<and> mint uuid4 (waiting_requests s) (request_responses s) 0 = Some rid
      \<and> connection s = Some c \<and> is_open c
      \<and> (\<forall>t<k. rid \<in> waiting_requests ((sleep UUID frames ^^ t) (s1 i rid full)))
      \<and> rid \<notin> waiting_requests ((sleep UUID frames ^^ k) (s1 i rid full))
      \<and> 0 < k \<and> k < 600
      \<and> request_responses ((sleep UUID frames ^^ k) (s1 i rid full)) rid = Some reply"
  proof -
    let ?data = "dict_set ''action'' (JArr [JStr ''rescues'', JStr ''update''])
      [(''id'', i), (''data'', to_json rescue full), (''meta'', JObj [])]"
    let ?data' = "[(''id'', i), (''data'', to_json rescue full),
      (''meta'', JObj [(''request_id'', JStr (str_uuid rid))]),
      (''action'', JArr [JStr ''rescues'', JStr ''update''])]"
    have st: "stamp (str_uuid rid) ?data = Inr ?data'"
      by (rule update_rescue_envelope)
    have s1: "s1 i rid full = s\<lparr>connection := Some (c\<lparr>sent := sent c @ [JObj ?data']\<rparr>),
        waiting_requests := insert rid (waiting_requests s)\<rparr>"
      by (simp add: s1_def envelope_def)
    from h have m: "mint uuid4 (waiting_requests s) (request_responses s) 0 = Some rid"
      and cn: "connection s = Some c" "is_open c"
      and run: "\<forall>t<k. rid \<in> waiting_requests ((sleep UUID frames ^^ t) (s1 i rid full))"
        "rid \<notin> waiting_requests ((sleep UUID frames ^^ k) (s1 i rid full))"
        "0 < k" "k < 600"
        "request_responses ((sleep UUID frames ^^ k) (s1 i rid full)) rid = Some reply"
      by blast+
    have "request UUID str_uuid uuid4 frames ?data s
        = Some (Inr reply, ((sleep UUID frames ^^ k) (s1 i rid full))
            \<lparr>request_responses :=
               (request_responses ((sleep UUID frames ^^ k) (s1 i rid full)))(rid := None)\<rparr>)"
      unfolding s1
      by (rule request_returns_reply [where c = c and k = k and rid = rid
            and str_uuid = str_uuid and s = s and UUID = UUID and frames = frames
            and data = ?data and reply = reply and data' = ?data',
            OF m st cn run [unfolded s1]])
    with h show ?thesis
      by (simp add: update_rescue_def call_def update_rescue_envelope(1))
  qed
  from a b c update_rescue_version [of UUID str_uuid uuid4 frames rescue full v s]
    handler21_is_handler20 [of h tok l]
  show ?thesis by blast
qed

text \<open>
  A rescue without an id, and rescue 42 pushed as a diff by the connected example
  handler, answered during the first tick of the wait.
\<close>

theorem update_rescue_contract_witness:
  "update_rescue example_UUID example_str (\<lambda>i. 7) (\<lambda>t. [])
      \<lparr>case_id = None, to_json = \<lambda>full. JObj []\<rparr> True example_idle
     = Some (Inl (ValueError ''Cannot send rescue without ID to the API''), example_idle)
   \<and> fst (the (update_rescue example_UUID example_str (\<lambda>i. 7)
          (\<lambda>t. if t = 0 then [Json example_reply] else [])
          \<lparr>case_id = Some (JInt 42),
           to_json = \<lambda>full. if full then JObj [(''client'', JStr ''Ada''), (''open'', JBool True)]
                            else JObj [(''open'', JBool True)]\<rparr>
          False example_idle)) = Inr example_reply
   \<and> connection (snd (the (update_rescue example_UUID example_str (\<lambda>i. 7)
          (\<lambda>t. if t = 0 then [Json example_reply] else [])
          \<lparr>case_id = Some (JInt 42),
           to_json = \<lambda>full. if full then JObj [(''client'', JStr ''Ada''), (''open'', JBool True)]
                            else JObj [(''open'', JBool True)]\<rparr>
          False example_idle)))
     = Some (example_socket\<lparr>sent :=
         [JObj [(''id'', JInt 42), (''data'', JObj [(''open'', JBool True)]),
                (''meta'', JObj [(''request_id'', JStr example_id_text)]),
                (''action'', JArr [JStr ''rescues'', JStr ''update''])]]\<rparr>)"
proof -
  let ?f = "\<lambda>t::nat. if t = 0 then [Json example_reply] else []"
  let ?r = "\<lparr>case_id = Some (JInt 42),
      to_json = \<lambda>full. if full then JObj [(''client'', JStr ''Ada''), (''open'', JBool True)]
                       else JObj [(''open'', JBool True)]\<rparr>"
  let ?s1 = "example_idle\<lparr>connection := Some (example_socket\<lparr>sent := sent example_socket @
        [JObj [(''id'', JInt 42), (''data'', to_json ?r False),
               (''meta'', JObj [(''request_id'', JStr (example_str 7))]),
               (''action'', JArr [JStr ''rescues'', JStr ''update''])]]\<rparr>),
      waiting_requests := insert 7 (waiting_requests example_idle)\<rparr>"
  have none: "case_id \<lparr>case_id = None, to_json = \<lambda>full. JObj []\<rparr> = None" by simp
  have some: "case_id ?r = Some (JInt 42)" by simp
  have k: "(0::nat) < 1" "(1::nat) < 600" by simp_all
  have m: "mint (\<lambda>i. 7) (waiting_requests example_idle) (request_responses example_idle) 0
      = Some 7"
    by (simp add: mint.simps [of _ _ _ 0] example_idle_def WebsocketAPIHandler20_def init_def)
  have cn: "connection example_idle = Some example_socket" "is_open example_socket"
    by (simp_all add: example_idle_def example_socket_def)
  have run: "\<forall>t<1. 7 \<in> waiting_requests ((sleep example_UUID ?f ^^ t) ?s1)"
    "7 \<notin> waiting_requests ((sleep example_UUID ?f ^^ 1) ?s1)"
    "request_responses ((sleep example_UUID ?f ^^ 1) ?s1) 7 = Some example_reply"
    by (simp_all add: example_UUID_def example_reply_def example_idle_def example_id_text_def
        example_str_def WebsocketAPIHandler20_def init_def sleep_def handle_message_def
        item_eq_def)
  have first: "update_rescue example_UUID example_str (\<lambda>i. 7) (\<lambda>t. [])
      \<lparr>case_id = None, to_json = \<lambda>full. JObj []\<rparr> True example_idle
     = Some (Inl (ValueError ''Cannot send rescue without ID to the API''), example_idle)"
    using update_rescue_contract [where rescue = "\<lparr>case_id = None, to_json = \<lambda>full. JObj []\<rparr>"
        and s = example_idle and full = True and UUID = example_UUID
        and str_uuid = example_str and frames = "\<lambda>t. []"] none
    by blast
  have second: "update_rescue example_UUID example_str (\<lambda>i. 7) ?f ?r False example_idle
      = Some (Inr example_reply, ((sleep example_UUID ?f ^^ 1) ?s1)
          \<lparr>request_responses :=
             (request_responses ((sleep example_UUID ?f ^^ 1) ?s1))(7 := None)\<rparr>)"
    using update_rescue_contract [where rescue = ?r and s = example_idle and full = False
        and UUID = example_UUID and str_uuid = example_str and frames = ?f
        and c = example_socket and i = "JInt 42" and rid = 7 and k = 1
        and reply = example_reply] m cn run some k
    by blast
  show ?thesis
    unfolding first second
    by (simp add: sleep_def message_handler_connection example_socket_def example_str_def)
qed

section \<open>Connection lifecycle\<close>

lemma connect_success_invariant:
  assumes "connect ws_connect hello s = (Inr (), s')"
  shows "listener_task s' = Some Running
       \<and> (\<exists>c. ws_connect (make_uri s) = Inr c \<and> connection s' = Some c)"
  using assms
  by (auto simp: connect_def Let_def split: option.splits if_splits sum.splits message.splits)

lemma disconnect_success_invariant:
  assumes "disconnect s = (Inr (), s')"
  shows "loop_runs_iff_connected s'"
  using assms
  by (auto simp: disconnect_def loop_runs_iff_connected_def connected_prop_def
      split: if_splits option.splits)

text \<open>
  C2. The invariant holds of a new handler, and a \<open>connect\<close> that raises
  \<open>MismatchedVersionError\<close> breaks it: the socket stays open and assigned, so the handler
  is connected, and no listener task exists. \<open>disconnect\<close> relies on the invariant: in
  that state it raises \<open>AttributeError\<close> on \<open>None.cancel()\<close> and closes nothing, and so
  does \<open>reconnect\<close>. An unparseable hello leaves the same state behind.
\<close>

theorem failed_connect_breaks_invariant:
  "loop_runs_iff_connected (WebsocketAPIHandler21 ''api.example'' None True)
   \<and> fst (connect (\<lambda>uri. Inr example_socket) example_hello
            (WebsocketAPIHandler21 ''api.example'' None True))
       = Inl (MismatchedVersionError ''v2.1'' (JStr ''v2.0''))
   \<and> snd (connect (\<lambda>uri. Inr example_socket) example_hello
            (WebsocketAPIHandler21 ''api.example'' None True))
       = (WebsocketAPIHandler21 ''api.example'' None True)\<lparr>connection := Some example_socket\<rparr>
   \<and> connected_prop
        ((WebsocketAPIHandler21 ''api.example'' None True)\<lparr>connection := Some example_socket\<rparr>)
   \<and> listener_task
        ((WebsocketAPIHandler21 ''api.example'' None True)\<lparr>connection := Some example_socket\<rparr>)
       = None
   \<and> \<not> loop_runs_iff_connected
        ((WebsocketAPIHandler21 ''api.example'' None True)\<lparr>connection := Some example_socket\<rparr>)
   \<and> disconnect
        ((WebsocketAPIHandler21 ''api.example'' None True)\<lparr>connection := Some example_socket\<rparr>)
       = (Inl AttributeError,
          (WebsocketAPIHandler21 ''api.example'' None True)\<lparr>connection := Some example_socket\<rparr>)
   \<and> reconnect (\<lambda>uri. Inr example_socket) example_hello None None None
        ((WebsocketAPIHandler21 ''api.example'' None True)\<lparr>connection := Some example_socket\<rparr>)
       = (Inl AttributeError,
          (WebsocketAPIHandler21 ''api.example'' None True)\<lparr>connection := Some example_socket\<rparr>)
   \<and> connect (\<lambda>uri. Inr example_socket) (NotJson ''<html>'')
        (WebsocketAPIHandler21 ''api.example'' None True)
       = (Inl (APIError ConnectMessageNotParsed),
          (WebsocketAPIHandler21 ''api.example'' None True)\<lparr>connection := Some example_socket\<rparr>)"
  by (simp add: loop_runs_iff_connected_def connected_prop_def WebsocketAPIHandler21_def
      init_def connect_def check_version_def example_hello_def example_socket_def
      disconnect_def reconnect_def make_uri_def)

text \<open>
  C6, as stated, fails: the exception \<open>connect\<close> raises on a connected handler is a
  \<open>NotConnectedError\<close>, the class that \<open>disconnect\<close> raises on a handler that is not
  connected; there is no other class for it.
\<close>

theorem connect_raises_not_connected_counterexample:
  "fst (connect (\<lambda>uri. Inr example_socket) example_hello example_idle)
     = Inl (NotConnectedError ''Already connected to a server: api.example'')
   \<and> fst (disconnect (WebsocketAPIHandler20 ''api.example'' None True))
     = Inl (NotConnectedError ''Not connected to API'')"
  by (simp add: connect_def disconnect_def connected_prop_def example_idle_def
      example_socket_def WebsocketAPIHandler20_def init_def)

text \<open>
  C6, amended. On a connected handler \<open>connect\<close> raises \<open>NotConnectedError\<close>, the
  class \<open>disconnect\<close> raises on a handler that is not connected, with a message of its
  own that names the host; the state, and so the connection and the listener task, is
  unchanged, and \<open>websockets.connect\<close> is not consulted.
\<close>

theorem connect_when_connected:
  assumes "connection s = Some c" and "is_open c"
  shows "connect ws_connect hello s
           = (Inl (NotConnectedError (''Already connected to a server: '' @ host c)), s)
       \<and> (\<not> connected_prop s' \<longrightarrow>
            disconnect s' = (Inl (NotConnectedError ''Not connected to API''), s'))
       \<and> ''Already connected to a server: '' @ host c \<noteq> ''Not connected to API''"
  using assms by (simp add: connect_def disconnect_def connected_prop_def)

theorem connect_when_connected_witness:
  "connect plain_only example_hello example_idle
     = (Inl (NotConnectedError ''Already connected to a server: api.example''), example_idle)
   \<and> disconnect (WebsocketAPIHandler20 ''api.example'' None True)
     = (Inl (NotConnectedError ''Not connected to API''),
        WebsocketAPIHandler20 ''api.example'' None True)"
  using connect_when_connected [where s = example_idle and c = example_socket
      and s' = "WebsocketAPIHandler20 ''api.example'' None True" and ws_connect = plain_only
      and hello = example_hello]
  by (simp add: example_idle_def example_socket_def connected_prop_def
      WebsocketAPIHandler20_def init_def)

lemma reconnect_overrides:
  assumes "\<not> connected_prop s" and "h \<noteq> []" and "t \<noteq> []"
  shows "reconnect ws_connect hello (Some h) (Some t) (Some True) s
       = connect ws_connect hello (s\<lparr>hostname := h, token := Some t, tls := True\<rparr>)"
    and "reconnect ws_connect hello None None None s = connect ws_connect hello s"
  using assms by (simp_all add: reconnect_def)

text \<open>
  C7. \<open>reconnect(tls=False)\<close> on a handler created with \<open>tls=True\<close> keeps \<open>tls\<close> and
  asks for the \<open>wss://\<close> URI, which a server that only accepts plain connections
  refuses; \<open>reconnect(token="")\<close> on a handler with a token keeps the token and sends it
  as the bearer. Both arguments were provided and neither replaced the parameter.
\<close>

theorem reconnect_ignores_false_and_empty:
  "reconnect plain_only example_hello None None (Some False)
      (WebsocketAPIHandler20 ''api.example'' None True)
     = (Inl (TransportError ''wss://api.example''),
        WebsocketAPIHandler20 ''api.example'' None True)
   \<and> tls (snd (reconnect plain_only example_hello None None (Some False)
        (WebsocketAPIHandler20 ''api.example'' None True))) = True
   \<and> reconnect anonymous_only example_hello None (Some '''') None
      (WebsocketAPIHandler20 ''api.example'' (Some ''secret'') True)
     = (Inl (TransportError ''wss://api.example/?bearer=secret''),
        WebsocketAPIHandler20 ''api.example'' (Some ''secret'') True)
   \<and> connect plain_only example_hello (WebsocketAPIHandler20 ''api.example'' None False)
     = (Inr (), (WebsocketAPIHandler20 ''api.example'' None False)
          \<lparr>connection := Some example_socket, listener_task := Some Running\<rparr>)"
  by (simp add: reconnect_def connect_def connected_prop_def make_uri_def plain_only_def
      anonymous_only_def WebsocketAPIHandler20_def init_def check_version_def
      example_hello_def)

section \<open>Frames the Dispatch Loop survives, and frames it does not\<close>

text \<open>
  The frames that every \<open>except\<close> clause and \<open>continue\<close> of the loop body is written
  for: text that is not JSON, and JSON objects whose \<open>meta\<close> is missing or is an object
  whose \<open>request_id\<close> is missing or a string. The loop handles each and goes on.
\<close>

lemma handle_message_contained:
  assumes "msg = NotJson raw
     \<or> (msg = Json (JObj d) \<and> map_of d ''meta'' = None)
     \<or> (msg = Json (JObj d) \<and> map_of d ''meta'' = Some (JObj m)
          \<and> (map_of m ''request_id'' = None \<or> (\<exists>x. map_of m ''request_id'' = Some (JStr x))))"
  shows "\<exists>s'. handle_message UUID msg s = Inr s'"
  using assms by (auto simp: handle_message_def split: option.splits)

text \<open>
  C3. A frame that is valid JSON but not an object, here \<open>[]\<close>, makes \<open>data.keys()\<close>
  raise \<open>AttributeError\<close>, which no \<open>except\<close> clause of the loop catches: the listener
  task ends, and the valid reply that follows is never filed, while the same reply after
  a frame that is not JSON is. So do an object whose \<open>meta\<close> is not an object
  (\<open>TypeError\<close>) and a \<open>request_id\<close> that is a number (\<open>AttributeError\<close> inside
  \<open>UUID\<close>).
\<close>

theorem json_array_frame_kills_listener:
  "listener_task (message_handler example_UUID [Json (JArr []), Json example_reply]
      example_handler) = Some (Crashed AttributeError)
   \<and> request_responses (message_handler example_UUID [Json (JArr []), Json example_reply]
      example_handler) 7 = None
   \<and> 7 \<in> waiting_requests (message_handler example_UUID [Json (JArr []), Json example_reply]
      example_handler)
   \<and> listener_task (message_handler example_UUID [NotJson ''[oops'', Json example_reply]
      example_handler) = Some Running
   \<and> request_responses (message_handler example_UUID [NotJson ''[oops'', Json example_reply]
      example_handler) 7 = Some example_reply
   \<and> listener_task (message_handler example_UUID
        [Json (JObj [(''meta'', JStr ''none'')]), Json example_reply] example_handler)
       = Some (Crashed TypeError)
   \<and> listener_task (message_handler example_UUID
        [Json (JObj [(''meta'', JObj [(''request_id'', JInt 7)])]), Json example_reply]
        example_handler)
       = Some (Crashed AttributeError)"
  by (simp add: handle_message_def item_eq_def example_handler_def example_idle_def
      example_UUID_def example_reply_def example_id_text_def WebsocketAPIHandler20_def
      init_def)

end
